theory Spec2Isabelle
  imports Main "HOL-Library.Word"
begin

section \<open>Values of the program\<close>

text \<open>
  The program is \<^verbatim>\<open>src/main.go\<close>: a TCP load generator with a listening role
  (\<^verbatim>\<open>ListenAndGo\<close>, write pumps) and a dialing role (\<^verbatim>\<open>ConnectAndGo\<close>, read pumps).
  Everything the code gets from the Go runtime, the \<^verbatim>\<open>net\<close> package and the operating
  system (the result of a resolve, a dial, an accept, a read or a write, the arrival of
  SIGINT) is an explicit input of the model. Everything the code does to the outside (a
  log line, a \<^verbatim>\<open>go\<close> statement, a \<^verbatim>\<open>Close\<close>) is an event of a trace, in program order.
\<close>

type_synonym byte = "8 word"

text \<open>
  A Go \<^verbatim>\<open>error\<close> value. The code compares errors with \<^verbatim>\<open>io.EOF\<close> only, so \<^verbatim>\<open>io.EOF\<close> is a
  constructor of its own and every other error value is told apart by its message.
  A nil error is \<open>None\<close> of \<open>error option\<close>.
\<close>

datatype error = EOF | Err string

text \<open>A \<^verbatim>\<open>*net.TCPAddr\<close>, as the text that \<^verbatim>\<open>log.Println\<close> prints for it.\<close>

type_synonym tcpaddr = string

text \<open>
  An established \<^verbatim>\<open>net.TCPConn\<close>: its descriptor and the two addresses that
  \<^verbatim>\<open>LocalAddr()\<close> and \<^verbatim>\<open>RemoteAddr()\<close> return. A \<^verbatim>\<open>*net.TCPConn\<close> is a \<open>conn option\<close>,
  \<open>None\<close> being the nil pointer.
\<close>

record conn =
  fd :: nat
  LocalAddr :: tcpaddr
  RemoteAddr :: tcpaddr

text \<open>A \<^verbatim>\<open>*net.TCPListener\<close>, by its descriptor.\<close>

type_synonym listener = nat

text \<open>
  The two functions that the code stores in a \<^verbatim>\<open>handler\<close> field
  (\<^verbatim>\<open>func(c *net.TCPConn) error\<close>): \<^verbatim>\<open>TCPConnRead\<close> and \<^verbatim>\<open>TCPConnWrite\<close>.
\<close>

datatype handler = ReadPump | WritePump

text \<open>What a \<^verbatim>\<open>go\<close> statement of the program starts.\<close>

datatype task =
  Handler handler "conn option"  \<comment> \<open>\<^verbatim>\<open>go s.handler(conn)\<close>, \<^verbatim>\<open>go c.handler(conns[i])\<close>\<close>
| DoProfile string               \<comment> \<open>\<^verbatim>\<open>go doprofile(*profile)\<close>\<close>
| RuntimeStats                   \<comment> \<open>\<^verbatim>\<open>go GoRuntimeStats()\<close>\<close>

text \<open>
  The \<^verbatim>\<open>log.Println\<close> calls of the core, one constructor per call site, carrying the
  operands that the call prints.
\<close>

datatype logline =
  FailedToResolveWith string error      \<comment> \<open>line 38\<close>
| FailedToListen string error           \<comment> \<open>line 43\<close>
| FailedToAccept "conn option" error    \<comment> \<open>line 50\<close>
| ClientConnected tcpaddr               \<comment> \<open>line 53\<close>
| FailedToResolve string                \<comment> \<open>lines 62 and 67\<close>
| FailedToConnect string string error   \<comment> \<open>line 78\<close>
| ClientConnectedTo tcpaddr tcpaddr     \<comment> \<open>line 82\<close>
| ClientDisconnected tcpaddr            \<comment> \<open>lines 97 and 119\<close>
| FailedReading conn error              \<comment> \<open>line 101\<close>
| FailedWriting conn error              \<comment> \<open>line 123\<close>
| Usage                                 \<comment> \<open>line 153\<close>
| FinishedExecution                     \<comment> \<open>line 177\<close>
| CtrlCExiting                          \<comment> \<open>line 184\<close>

text \<open>
  The trace. \<open>Opened\<close> records that \<^verbatim>\<open>DialTCP\<close> or \<^verbatim>\<open>AcceptTCP\<close> handed an established
  connection to the program; \<open>Closed\<close> records a call of \<^verbatim>\<open>Close\<close> and its receiver;
  \<open>MakeBuffer\<close> records the \<^verbatim>\<open>make([]byte, n)\<close> of line 158.
\<close>

datatype event =
  Log logline
| Go task
| Opened conn
| Closed "conn option"
| SetReadBuffer conn int
| SetWriteBuffer conn int
| MakeBuffer nat
| PrintDefaults

text \<open>
  How a function of the program ends: it returns (with its \<^verbatim>\<open>error\<close> result, nil being
  \<open>None\<close>), it panics, it blocks for ever in a call that never returns, or it ends the
  process with \<^verbatim>\<open>os.Exit\<close>.
\<close>

datatype outcome = Returned "error option" | Panicked | Blocked | Exited int

section \<open>Connection pumps\<close>

text \<open>
  \<^verbatim>\<open>c.Read(b)\<close> returns \<^verbatim>\<open>(n, err)\<close> after storing \<^verbatim>\<open>n\<close> received bytes in \<^verbatim>\<open>b[0:n]\<close>.
  One result of the call is the pair of the bytes received and the error; \<open>fill\<close> is the
  store into the destination slice, which never grows it.
\<close>

type_synonym read_result = "byte list \<times> error option"

definition fill :: "byte list \<Rightarrow> byte list \<Rightarrow> byte list" where
  "fill b data = take (length b) data @ drop (length data) b"

text \<open>
  The loop of \<^verbatim>\<open>TCPConnRead\<close> (lines 93 to 106) over the results of its successive
  \<^verbatim>\<open>c.Read(b)\<close> calls. \<^verbatim>\<open>b\<close> is the global slice of line 110, so the loop returns
  its contents too. When the results are used up, the next \<^verbatim>\<open>Read\<close> never returns.
\<close>

fun read_loop :: "conn \<Rightarrow> byte list \<Rightarrow> read_result list \<Rightarrow> event list \<times> outcome \<times> byte list" where
  "read_loop c b [] = ([], Blocked, b)"
| "read_loop c b ((data, err) # rs) =
     (case err of
        None \<Rightarrow> read_loop c (fill b data) rs
      | Some e \<Rightarrow>
          if e = EOF
          then ([Log (ClientDisconnected (RemoteAddr c)), Closed (Some c)],
                Returned None, fill b data)
          else ([Log (FailedReading c e), Closed (Some c)],
                Returned (Some e), fill b data))"

definition TCPConnRead ::
  "int \<Rightarrow> conn \<Rightarrow> byte list \<Rightarrow> read_result list \<Rightarrow> event list \<times> outcome \<times> byte list" where
  "TCPConnRead packetsize c b rs =
     (case read_loop c b rs of
        (evs, out, b') \<Rightarrow> (SetReadBuffer c packetsize # evs, out, b'))"

text \<open>
  \<^verbatim>\<open>c.Write(b)\<close> returns \<^verbatim>\<open>(n, err)\<close>: the number of bytes written and the error. It
  reads \<^verbatim>\<open>b\<close> and stores nothing in it.
\<close>

type_synonym write_result = "nat \<times> error option"

fun write_loop :: "conn \<Rightarrow> byte list \<Rightarrow> write_result list \<Rightarrow> event list \<times> outcome \<times> byte list" where
  "write_loop c b [] = ([], Blocked, b)"
| "write_loop c b ((n, err) # ws) =
     (case err of
        None \<Rightarrow> write_loop c b ws
      | Some e \<Rightarrow>
          if e = EOF
          then ([Log (ClientDisconnected (RemoteAddr c)), Closed (Some c)],
                Returned None, b)
          else ([Log (FailedWriting c e), Closed (Some c)],
                Returned (Some e), b))"

definition TCPConnWrite ::
  "int \<Rightarrow> conn \<Rightarrow> byte list \<Rightarrow> write_result list \<Rightarrow> event list \<times> outcome \<times> byte list" where
  "TCPConnWrite packetsize c b ws =
     (case write_loop c b ws of
        (evs, out, b') \<Rightarrow> (SetWriteBuffer c packetsize # evs, out, b'))"

section \<open>Reading a trace\<close>

text \<open>The \<^verbatim>\<open>Close\<close> calls of a trace, with their receivers, in order.\<close>

fun closes :: "event list \<Rightarrow> conn option list" where
  "closes [] = []"
| "closes (Closed c # evs) = c # closes evs"
| "closes (_ # evs) = closes evs"

text \<open>The log lines of a trace, in order.\<close>

fun logged :: "event list \<Rightarrow> logline list" where
  "logged [] = []"
| "logged (Log l # evs) = l # logged evs"
| "logged (_ # evs) = logged evs"

text \<open>
  The pumps started by the \<^verbatim>\<open>go\<close> statements of a trace, in order: the handler and
  the connection it is called on.
\<close>

fun pumps :: "event list \<Rightarrow> (handler \<times> conn option) list" where
  "pumps [] = []"
| "pumps (Go (Handler h c) # evs) = (h, c) # pumps evs"
| "pumps (_ # evs) = pumps evs"

text \<open>
  The connections that are open after a trace, given those open before it, oldest first:
  \<open>Opened\<close> adds one, a \<^verbatim>\<open>Close\<close> on it removes it.
\<close>

fun open_conns :: "conn list \<Rightarrow> event list \<Rightarrow> conn list" where
  "open_conns cs [] = cs"
| "open_conns cs (Opened c # evs) = open_conns (cs @ [c]) evs"
| "open_conns cs (Closed (Some c) # evs) = open_conns (remove1 c cs) evs"
| "open_conns cs (_ # evs) = open_conns cs evs"

text \<open>The lengths of the buffers that a trace allocates, in order.\<close>

fun allocations :: "event list \<Rightarrow> nat list" where
  "allocations [] = []"
| "allocations (MakeBuffer n # evs) = n # allocations evs"
| "allocations (_ # evs) = allocations evs"

section \<open>The environment of the endpoints\<close>

text \<open>
  A call that the program makes on a receiver that may be nil either returns a value or
  faults (a nil-pointer panic).
\<close>

datatype 'a call = Return 'a | Fault

text \<open>
  The \<^verbatim>\<open>net\<close> package as the endpoints use it. \<^verbatim>\<open>ResolveTCPAddr\<close>, \<^verbatim>\<open>DialTCP\<close> and
  \<^verbatim>\<open>ListenTCP\<close> return a value and a nil error, or a nil value and an error; \<open>AcceptTCP\<close>
  lists the results of the successive \<^verbatim>\<open>ln.AcceptTCP()\<close> calls on a listener, and when
  they are used up the next call never returns.

  \<open>nilClose\<close> is what \<^verbatim>\<open>Close()\<close> does on a nil \<^verbatim>\<open>*net.TCPConn\<close>: it returns an error
  (which line 79 would discard), or it faults. With the \<^verbatim>\<open>net\<close> package of the Go
  toolchain it faults: \<^verbatim>\<open>TCPConn\<close> embeds the struct \<^verbatim>\<open>conn\<close> and \<^verbatim>\<open>Close\<close> is a method of
  \<^verbatim>\<open>*conn\<close>, so the call on a \<^verbatim>\<open>*TCPConn\<close> takes the address of the embedded field
  through the nil pointer before the method can look at its receiver. The field keeps
  this fact of the toolchain in one place; every statement that depends on it says which
  value it takes, and the concrete environments below all have \<open>Fault\<close>.
\<close>

record net =
  ResolveTCPAddr :: "string \<Rightarrow> string \<Rightarrow> error + tcpaddr"
  DialTCP :: "string \<Rightarrow> tcpaddr \<Rightarrow> tcpaddr \<Rightarrow> error + conn"
  ListenTCP :: "string \<Rightarrow> tcpaddr \<Rightarrow> error + listener"
  AcceptTCP :: "listener \<Rightarrow> (error + conn) list"
  nilClose :: "error call"

text \<open>\<^verbatim>\<open>conn.Close()\<close> on a \<^verbatim>\<open>*net.TCPConn\<close>: the events, and how the call ends.\<close>

definition Close :: "net \<Rightarrow> conn option \<Rightarrow> event list \<times> error option call" where
  "Close n conn =
     (case conn of
        None \<Rightarrow> ([Closed None], case nilClose n of Return e \<Rightarrow> Return (Some e) | Fault \<Rightarrow> Fault)
      | Some c \<Rightarrow> ([Closed (Some c)], Return None))"

section \<open>Listening endpoint\<close>

record Server =
  proto :: string
  addr :: string
  handler :: handler

text \<open>The \<^verbatim>\<open>for\<close> loop of \<^verbatim>\<open>ListenAndGo\<close> (lines 47 to 55) over the results of accept.\<close>

fun accept_loop :: "Server \<Rightarrow> (error + conn) list \<Rightarrow> event list" where
  "accept_loop s [] = []"
| "accept_loop s (Inl err # as) =
     Log (FailedToAccept None err) # accept_loop s as"
| "accept_loop s (Inr conn # as) =
     Opened conn # Log (ClientConnected (RemoteAddr conn))
       # Go (Handler (Server.handler s) (Some conn)) # accept_loop s as"

definition ListenAndGo :: "Server \<Rightarrow> net \<Rightarrow> event list \<times> outcome" where
  "ListenAndGo s n =
     (case ResolveTCPAddr n (Server.proto s) (Server.addr s) of
        Inl err \<Rightarrow> ([Log (FailedToResolveWith (Server.addr s) err)], Returned (Some err))
      | Inr tcpaddr \<Rightarrow>
          (case ListenTCP n (Server.proto s) tcpaddr of
             Inl err \<Rightarrow> ([Log (FailedToListen (Server.addr s) err)], Returned (Some err))
           | Inr ln \<Rightarrow> (accept_loop s (AcceptTCP n ln), Blocked)))"

section \<open>Dialing endpoint\<close>

record Client =
  proto :: string
  addr :: string
  handler :: handler
  concurrency :: int
  size' :: int
  nflight :: int
  reqres :: bool
  saddr :: string

text \<open>
  \<^verbatim>\<open>NewConnection\<close> (lines 59 to 71) returns the Go pair \<^verbatim>\<open>(*net.TCPConn, error)\<close>; the
  model returns its events with it.
\<close>

definition NewConnection :: "Client \<Rightarrow> net \<Rightarrow> event list \<times> conn option \<times> error option" where
  "NewConnection c n =
     (case ResolveTCPAddr n (proto c) (saddr c) of
        Inl err \<Rightarrow> ([Log (FailedToResolve (saddr c))], None, Some err)
      | Inr srcTcpAddr \<Rightarrow>
          (case ResolveTCPAddr n (proto c) (addr c) of
             Inl err \<Rightarrow> ([Log (FailedToResolve (addr c))], None, Some err)
           | Inr dstTcpAddr \<Rightarrow>
               (case DialTCP n (proto c) srcTcpAddr dstTcpAddr of
                  Inl err \<Rightarrow> ([], None, Some err)
                | Inr conn \<Rightarrow> ([Opened conn], Some conn, None))))"

text \<open>
  The first loop of \<^verbatim>\<open>ConnectAndGo\<close> (lines 75 to 84). \<open>nets i\<close> is the network as the
  \<open>i\<close>-th call of \<^verbatim>\<open>NewConnection\<close> finds it. The loop ends the function (\<open>Inl\<close>, with
  how) or falls through to line 85 with the slice \<^verbatim>\<open>conns\<close> (\<open>Inr\<close>). The counter is a Go
  \<^verbatim>\<open>int\<close>; it never passes \<^verbatim>\<open>c.concurrency\<close>, so it does not overflow and \<open>int\<close> models
  it. The store \<^verbatim>\<open>conns[i] = conn\<close> panics out of range. On line 82 \<^verbatim>\<open>conn\<close> is not nil,
  since \<^verbatim>\<open>NewConnection\<close> returns a nil connection only with an error (lemma
  \<open>NewConnection_nil_iff\<close>); the model gives the branch a panic.
\<close>

function dial_loop ::
  "Client \<Rightarrow> (nat \<Rightarrow> net) \<Rightarrow> int \<Rightarrow> conn option list \<Rightarrow> event list \<times> (outcome + conn option list)" where
  "dial_loop c nets i conns =
     (if i < concurrency c then
        (case NewConnection c (nets (nat i)) of
           (evs, conn, err) \<Rightarrow>
             (case err of
                Some e \<Rightarrow>
                  (case Close (nets (nat i)) conn of
                     (cevs, r) \<Rightarrow>
                       (evs @ [Log (FailedToConnect (addr c) (saddr c) e)] @ cevs,
                        Inl (case r of Return _ \<Rightarrow> Returned (Some e) | Fault \<Rightarrow> Panicked)))
              | None \<Rightarrow>
                  (case conn of
                     None \<Rightarrow> (evs, Inl Panicked)
                   | Some cn \<Rightarrow>
                       if 0 \<le> i \<and> nat i < length conns then
                         (case dial_loop c nets (i + 1) (conns[nat i := Some cn]) of
                            (evs', r) \<Rightarrow>
                              (evs @ [Log (ClientConnectedTo (LocalAddr cn) (RemoteAddr cn))]
                                 @ evs', r))
                       else
                         (evs @ [Log (ClientConnectedTo (LocalAddr cn) (RemoteAddr cn))],
                          Inl Panicked))))
      else ([], Inr conns))"
  by pat_completeness auto
termination
  by (relation "measure (\<lambda>(c, nets, i, conns). nat (concurrency c - i))") auto

text \<open>
  The second loop (lines 85 to 87): one \<^verbatim>\<open>go c.handler(conns[i])\<close> per index. The read
  \<^verbatim>\<open>conns[i]\<close> panics out of range.
\<close>

function go_loop :: "Client \<Rightarrow> int \<Rightarrow> conn option list \<Rightarrow> event list \<times> outcome" where
  "go_loop c i conns =
     (if i < concurrency c then
        if 0 \<le> i \<and> nat i < length conns then
          (case go_loop c (i + 1) conns of
             (evs, out) \<Rightarrow> (Go (Handler (handler c) (conns ! nat i)) # evs, out))
        else ([], Panicked)
      else ([], Returned None))"
  by pat_completeness auto
termination
  by (relation "measure (\<lambda>(c, i, conns). nat (concurrency c - i))") auto

text \<open>
  \<^verbatim>\<open>ConnectAndGo\<close> (lines 73 to 89). \<^verbatim>\<open>make([]*net.TCPConn, c.concurrency)\<close> panics on a
  negative length and gives a slice of nil pointers otherwise.
\<close>

definition ConnectAndGo :: "Client \<Rightarrow> (nat \<Rightarrow> net) \<Rightarrow> event list \<times> outcome" where
  "ConnectAndGo c nets =
     (if concurrency c < 0 then ([], Panicked)
      else
        (case dial_loop c nets 0 (replicate (nat (concurrency c)) None) of
           (evs, Inl out) \<Rightarrow> (evs, out)
         | (evs, Inr conns) \<Rightarrow>
             (case go_loop c 0 conns of (evs', out) \<Rightarrow> (evs @ evs', out))))"

section \<open>Top-level flow\<close>

text \<open>
  The command line after \<^verbatim>\<open>flag.Parse()\<close> (lines 136 to 146): the value of every flag,
  and \<^verbatim>\<open>flag.NArg()\<close>, the number of arguments left over.
\<close>

record flags =
  flag_host :: string
  flag_port :: string
  flag_shost :: string
  flag_sport :: string
  flag_listen :: bool
  flag_size :: int      \<comment> \<open>the global \<^verbatim>\<open>*packetsize\<close>\<close>
  flag_nconn :: int
  flag_reqres :: bool
  flag_nflight :: int
  flag_profile :: string
  NArg :: nat

text \<open>The defaults that lines 136 to 145 give the flags, with no argument left over.\<close>

definition defaults :: flags where
  "defaults =
     \<lparr>flag_host = ''127.0.0.1'', flag_port = ''12345'', flag_shost = ''127.0.0.1'',
      flag_sport = ''0'', flag_listen = False, flag_size = 1500, flag_nconn = 254,
      flag_reqres = False, flag_nflight = 1024, flag_profile = [], NArg = 0\<rparr>"

text \<open>
  What the process finds outside: \<^verbatim>\<open>net.JoinHostPort\<close>, the network at each call of
  \<^verbatim>\<open>NewConnection\<close> (the listening endpoint finds \<open>network w 0\<close>), whether SIGINT
  ever arrives, and \<open>make_max\<close>, the longest byte slice for which the process has the
  memory.
\<close>

record os =
  JoinHostPort :: "string \<Rightarrow> string \<Rightarrow> string"
  network :: "nat \<Rightarrow> net"
  SIGINT :: bool
  make_max :: nat

text \<open>
  \<^verbatim>\<open>make([]byte, n)\<close> panics on a negative \<^verbatim>\<open>n\<close> and on an \<^verbatim>\<open>n\<close> beyond the limit of the
  runtime on one allocation ("len out of range"), and the process dies when the memory
  is not there ("out of memory"). \<open>maxAlloc\<close> is that limit where it is largest, on the
  platforms with 48 address bits; \<open>make_limit\<close> is the longest slice that \<^verbatim>\<open>make\<close> gives
  in this process.
\<close>

definition maxAlloc :: nat where
  "maxAlloc = 2 ^ 48"

definition make_limit :: "os \<Rightarrow> int" where
  "make_limit w = int (min (make_max w) maxAlloc)"

text \<open>
  \<^verbatim>\<open>SigIntHandler\<close> (lines 180 to 186) blocks on the channel until SIGINT arrives, then
  logs and calls \<^verbatim>\<open>os.Exit(0)\<close>. It never returns.
\<close>

definition SigIntHandler :: "bool \<Rightarrow> event list \<times> outcome" where
  "SigIntHandler sigint = (if sigint then ([Log CtrlCExiting], Exited 0) else ([], Blocked))"

text \<open>
  A call statement whose result is dropped, followed by the rest of the function: the
  rest runs only when the call returns.
\<close>

definition and_then :: "event list \<times> outcome \<Rightarrow> event list \<times> outcome \<Rightarrow> event list \<times> outcome" where
  "and_then call rest =
     (case snd call of
        Returned _ \<Rightarrow> (fst call @ fst rest, snd rest)
      | _ \<Rightarrow> call)"

text \<open>
  The two struct literals of \<^verbatim>\<open>main\<close> (lines 164 and 168 to 170), from the flags.
\<close>

definition main_Server :: "flags \<Rightarrow> os \<Rightarrow> Server" where
  "main_Server f w =
     \<lparr>Server.proto = ''tcp'',
      addr = JoinHostPort w (flag_host f) (flag_port f),
      handler = WritePump\<rparr>"

definition main_Client :: "flags \<Rightarrow> os \<Rightarrow> Client" where
  "main_Client f w =
     \<lparr>Client.proto = ''tcp'',
      addr = JoinHostPort w (flag_host f) (flag_port f),
      handler = ReadPump,
      concurrency = flag_nconn f,
      size' = flag_size f,
      nflight = flag_nflight f,
      reqres = flag_reqres f,
      saddr = JoinHostPort w (flag_shost f) (flag_sport f)\<rparr>"

text \<open>
  \<^verbatim>\<open>main\<close> (lines 134 to 178): the trace of the main goroutine, how it ends, and the
  global slice \<^verbatim>\<open>b\<close> (nil, the empty slice, until line 158). \<^verbatim>\<open>make([]byte, n)\<close> gives
  \<^verbatim>\<open>n\<close> zero bytes when \<^verbatim>\<open>n\<close> is from 0 to \<open>make_limit\<close>, and ends the process (status 2)
  otherwise. Returning from \<^verbatim>\<open>main\<close> ends the process with status 0. The goroutines
  that \<^verbatim>\<open>main\<close> starts are in the trace as \<open>Go\<close> events; what a pump then does is
  \<open>TCPConnRead\<close> or \<open>TCPConnWrite\<close>. The goroutine of \<^verbatim>\<open>doprofile\<close> is not followed: it
  can end the process on its own (\<^verbatim>\<open>log.Fatal\<close>, status 1, when a profile file cannot be
  created), so what is said below of how the process ends is said of runs without
  \<^verbatim>\<open>-profile\<close>.
\<close>

definition main :: "flags \<Rightarrow> os \<Rightarrow> event list \<times> outcome \<times> byte list" where
  "main f w =
     (let pevs = (if flag_profile f \<noteq> [] then [Go (DoProfile (flag_profile f))] else [])
      in
        if NArg f \<noteq> 0 then (pevs @ [Log Usage, PrintDefaults], Returned None, [])
        else if flag_size f < 0 \<or> make_limit w < flag_size f then (pevs, Panicked, [])
        else
          (let b = replicate (nat (flag_size f)) (0 :: byte);
               evs = pevs @ [MakeBuffer (nat (flag_size f)), Go RuntimeStats];
               r = (if flag_listen f then
                      and_then (ListenAndGo (main_Server f w) (network w 0))
                        ([Log FinishedExecution], Returned None)
                    else
                      and_then (ConnectAndGo (main_Client f w) (network w))
                        (and_then (SigIntHandler (SIGINT w))
                           ([Log FinishedExecution], Returned None)))
           in (evs @ fst r, snd r, b)))"

text \<open>The exit status of the process, when it ends: 2 is the status of a Go panic.\<close>

fun exit_status :: "outcome \<Rightarrow> int option" where
  "exit_status (Returned _) = Some 0"
| "exit_status (Exited n) = Some n"
| "exit_status Panicked = Some 2"
| "exit_status Blocked = None"

section \<open>Traces to compare with\<close>

text \<open>
  What one iteration of the dial loop adds to the trace when its dial succeeds with the
  connection \<open>cn\<close>: the connection is there, and line 82 logs it.
\<close>

definition connected :: "conn \<Rightarrow> event list" where
  "connected cn = [Opened cn, Log (ClientConnectedTo (LocalAddr cn) (RemoteAddr cn))]"

section \<open>Concrete environments\<close>

text \<open>
  Small environments on which the theorems below are run. \<open>loopback j\<close> is the \<open>j\<close>-th
  connection of a client on the loopback interface.
\<close>

definition loopback :: "nat \<Rightarrow> conn" where
  "loopback j = \<lparr>fd = j, LocalAddr = ''127.0.0.1:0'', RemoteAddr = ''127.0.0.1:12345''\<rparr>"

text \<open>
  A network in which every address resolves to itself, the \<open>j\<close>-th dial gives
  \<open>loopback j\<close>, and a listener accepts the connections \<open>peers\<close> and then waits.
\<close>

definition up :: "conn list \<Rightarrow> nat \<Rightarrow> net" where
  "up peers j =
     \<lparr>ResolveTCPAddr = (\<lambda>p a. Inr a),
      DialTCP = (\<lambda>p s d. Inr (loopback j)),
      ListenTCP = (\<lambda>p a. Inr 3),
      AcceptTCP = (\<lambda>ln. map Inr peers),
      nilClose = Fault\<rparr>"

text \<open>
  A network in which every address resolves to itself, the target refuses every dial and
  the local port is taken. \<open>nc\<close> is what \<^verbatim>\<open>Close\<close> does on a nil connection.
\<close>

definition down :: "error call \<Rightarrow> net" where
  "down nc =
     \<lparr>ResolveTCPAddr = (\<lambda>p a. Inr a),
      DialTCP = (\<lambda>p s d. Inl (Err ''connection refused'')),
      ListenTCP = (\<lambda>p a. Inl (Err ''address already in use'')),
      AcceptTCP = (\<lambda>ln. []),
      nilClose = nc\<rparr>"

text \<open>A network in which no address resolves.\<close>

definition no_dns :: net where
  "no_dns =
     \<lparr>ResolveTCPAddr = (\<lambda>p a. Inl (Err ''no such host'')),
      DialTCP = (\<lambda>p s d. Inl (Err ''connection refused'')),
      ListenTCP = (\<lambda>p a. Inl (Err ''address already in use'')),
      AcceptTCP = (\<lambda>ln. []),
      nilClose = Fault\<rparr>"

text \<open>The target accepts \<open>i\<close> connections and refuses every later dial.\<close>

definition refuses_after :: "nat \<Rightarrow> error call \<Rightarrow> nat \<Rightarrow> net" where
  "refuses_after i nc j = (if j < i then up [] j else down nc)"

text \<open>
  The process environment around a network, with SIGINT arriving or not, and memory for
  a slice of 64 KiB.
\<close>

definition host_os :: "(nat \<Rightarrow> net) \<Rightarrow> bool \<Rightarrow> os" where
  "host_os nets sigint =
     \<lparr>JoinHostPort = (\<lambda>h p. h @ '':'' @ p), network = nets, SIGINT = sigint,
      make_max = 65536\<rparr>"

section \<open>Properties of the pumps\<close>

lemma read_loop_until_error:
  "read_loop c b (map (\<lambda>d. (d, None)) ds @ (d, Some e) # rest) =
     ([Log (if e = EOF then ClientDisconnected (RemoteAddr c) else FailedReading c e),
       Closed (Some c)],
      Returned (if e = EOF then None else Some e),
      fill (foldl fill b ds) d)"
  by (induction ds arbitrary: b) simp_all

lemma write_loop_until_error:
  "write_loop c b (map (\<lambda>n. (n, None)) ns @ (n, Some e) # rest) =
     ([Log (if e = EOF then ClientDisconnected (RemoteAddr c) else FailedWriting c e),
       Closed (Some c)],
      Returned (if e = EOF then None else Some e),
      b)"
  by (induction ns arbitrary: b) simp_all

section \<open>Projections of a trace\<close>

text \<open>
  The recursion equations of the two loops are unfolded by hand (\<open>subst\<close>), one
  iteration at a time.
\<close>

declare dial_loop.simps [simp del] go_loop.simps [simp del]

lemma pumps_append: "pumps (xs @ ys) = pumps xs @ pumps ys"
  by (induction xs rule: pumps.induct) simp_all

lemma closes_append: "closes (xs @ ys) = closes xs @ closes ys"
  by (induction xs rule: closes.induct) simp_all

lemma logged_append: "logged (xs @ ys) = logged xs @ logged ys"
  by (induction xs rule: logged.induct) simp_all

lemma allocations_append: "allocations (xs @ ys) = allocations xs @ allocations ys"
  by (induction xs rule: allocations.induct) simp_all

lemma open_conns_append: "open_conns cs (xs @ ys) = open_conns (open_conns cs xs) ys"
  by (induction cs xs rule: open_conns.induct) simp_all

section \<open>Properties of the dialing endpoint\<close>

lemma NewConnection_cases:
  "(\<exists>e l. NewConnection c n = (l, None, Some e) \<and> (l = [] \<or> (\<exists>a. l = [Log (FailedToResolve a)])))
   \<or> (\<exists>cn. NewConnection c n = ([Opened cn], Some cn, None))"
  by (auto simp: NewConnection_def split: sum.splits)

lemma NewConnection_nil_iff:
  "(fst (snd (NewConnection c n)) = None) = (snd (snd (NewConnection c n)) \<noteq> None)"
  by (auto simp: NewConnection_def split: sum.splits)


lemma dial_loop_fails_at:
  assumes "int i < concurrency c" "length conns = nat (concurrency c)" "k \<le> i"
    and "\<forall>j. k \<le> j \<and> j < i \<longrightarrow> NewConnection c (nets j) = ([Opened (cs j)], Some (cs j), None)"
    and "NewConnection c (nets i) = (fevs, cn, Some e)"
  shows "dial_loop c nets (int k) conns =
           (concat (map (\<lambda>j. connected (cs j)) [k..<i]) @ fevs
              @ [Log (FailedToConnect (addr c) (saddr c) e)] @ fst (Close (nets i) cn),
            Inl (case snd (Close (nets i) cn) of Return _ \<Rightarrow> Returned (Some e) | Fault \<Rightarrow> Panicked))"
  using assms
proof (induction "i - k" arbitrary: k conns)
  case 0
  then have "k = i" by simp
  with 0 show ?case
    by (subst dial_loop.simps) (auto split: prod.splits call.splits option.splits)
next
  case (Suc d)
  then have lt: "k < i" by simp
  have step: "NewConnection c (nets k) = ([Opened (cs k)], Some (cs k), None)"
    using Suc.prems lt by simp
  have IH: "dial_loop c nets (int (Suc k)) (conns[k := Some (cs k)]) =
           (concat (map (\<lambda>j. connected (cs j)) [Suc k..<i]) @ fevs
              @ [Log (FailedToConnect (addr c) (saddr c) e)] @ fst (Close (nets i) cn),
            Inl (case snd (Close (nets i) cn) of Return _ \<Rightarrow> Returned (Some e) | Fault \<Rightarrow> Panicked))"
    using Suc.hyps(2) Suc.prems lt by (intro Suc.hyps(1)) auto
  have kc: "int k < concurrency c" "k < length conns" using Suc.prems lt by auto
  have unfold: "dial_loop c nets (int k) conns =
      (case dial_loop c nets (int (Suc k)) (conns[k := Some (cs k)]) of
         (evs', r) \<Rightarrow> (connected (cs k) @ evs', r))"
    using lt kc step by (subst dial_loop.simps) (simp add: connected_def add.commute)
  show ?case
    unfolding unfold IH using lt by (simp add: upt_conv_Cons)
qed

lemma dial_loop_all_ok:
  assumes "length conns = nat (concurrency c)" "int k \<le> concurrency c"
    and "\<forall>j. k \<le> j \<and> j < nat (concurrency c) \<longrightarrow> NewConnection c (nets j) = ([Opened (cs j)], Some (cs j), None)"
  shows "dial_loop c nets (int k) conns =
           (concat (map (\<lambda>j. connected (cs j)) [k..<nat (concurrency c)]),
            Inr (take k conns @ map (\<lambda>j. Some (cs j)) [k..<nat (concurrency c)]))"
  using assms
proof (induction "nat (concurrency c) - k" arbitrary: k conns)
  case 0
  then have "int k = concurrency c" by simp
  with 0 show ?case
    by (subst dial_loop.simps) simp
next
  case (Suc d)
  then have lt: "k < nat (concurrency c)" by simp
  have step: "NewConnection c (nets k) = ([Opened (cs k)], Some (cs k), None)"
    using Suc.prems lt by simp
  have IH: "dial_loop c nets (int (Suc k)) (conns[k := Some (cs k)]) =
           (concat (map (\<lambda>j. connected (cs j)) [Suc k..<nat (concurrency c)]),
            Inr (take (Suc k) (conns[k := Some (cs k)]) @ map (\<lambda>j. Some (cs j)) [Suc k..<nat (concurrency c)]))"
    using Suc.hyps(2) Suc.prems lt by (intro Suc.hyps(1)) auto
  have kc: "int k < concurrency c" "k < length conns" using Suc.prems lt by auto
  have tk: "take (Suc k) (conns[k := Some (cs k)]) = take k conns @ [Some (cs k)]"
    using kc by (simp add: take_Suc_conv_app_nth)
  have unfold: "dial_loop c nets (int k) conns =
      (case dial_loop c nets (int (Suc k)) (conns[k := Some (cs k)]) of
         (evs', r) \<Rightarrow> (connected (cs k) @ evs', r))"
    using lt kc step by (subst dial_loop.simps) (simp add: connected_def add.commute)
  show ?case
    unfolding unfold IH using lt tk by (simp add: upt_conv_Cons)
qed

lemma go_loop_all:
  assumes "length conns = nat (concurrency c)" "int k \<le> concurrency c"
  shows "go_loop c (int k) conns =
           (map (\<lambda>j. Go (Handler (handler c) (conns ! j))) [k..<nat (concurrency c)], Returned None)"
  using assms
proof (induction "nat (concurrency c) - k" arbitrary: k)
  case 0
  then have "int k = concurrency c" by simp
  then show ?case by (subst go_loop.simps) simp
next
  case (Suc d)
  then have lt: "k < nat (concurrency c)" by simp
  have IH: "go_loop c (int (Suc k)) conns =
           (map (\<lambda>j. Go (Handler (handler c) (conns ! j))) [Suc k..<nat (concurrency c)], Returned None)"
    using Suc.hyps(2) Suc.prems lt by (intro Suc.hyps(1)) auto
  have kc: "int k < concurrency c" "k < length conns" using Suc.prems lt by auto
  have unfold: "go_loop c (int k) conns =
      (case go_loop c (int (Suc k)) conns of
         (evs, out) \<Rightarrow> (Go (Handler (handler c) (conns ! k)) # evs, out))"
    using lt kc by (subst go_loop.simps) (simp add: add.commute)
  show ?case
    unfolding unfold IH using lt by (simp add: upt_conv_Cons)
qed


lemma ConnectAndGo_all_ok:
  assumes "0 \<le> concurrency c"
    and "\<forall>j. j < nat (concurrency c) \<longrightarrow> NewConnection c (nets j) = ([Opened (cs j)], Some (cs j), None)"
  shows "ConnectAndGo c nets =
           (concat (map (\<lambda>j. connected (cs j)) [0..<nat (concurrency c)])
              @ map (\<lambda>j. Go (Handler (handler c) (Some (cs j)))) [0..<nat (concurrency c)],
            Returned None)"
proof -
  let ?N = "nat (concurrency c)"
  have d: "dial_loop c nets (int 0) (replicate ?N None) =
             (concat (map (\<lambda>j. connected (cs j)) [0..<?N]),
              Inr (take 0 (replicate ?N None) @ map (\<lambda>j. Some (cs j)) [0..<?N]))"
    using assms by (intro dial_loop_all_ok) auto
  have g: "go_loop c (int 0) (map (\<lambda>j. Some (cs j)) [0..<?N]) =
             (map (\<lambda>j. Go (Handler (handler c) (map (\<lambda>j. Some (cs j)) [0..<?N] ! j))) [0..<?N],
              Returned None)"
    using assms by (intro go_loop_all) auto
  have m: "map (\<lambda>j. Go (Handler (handler c) (map (\<lambda>j. Some (cs j)) [0..<?N] ! j))) [0..<?N]
             = map (\<lambda>j. Go (Handler (handler c) (Some (cs j)))) [0..<?N]"
    by (rule map_cong) auto
  show ?thesis
    using assms(1) d g m by (simp add: ConnectAndGo_def)
qed

lemma ConnectAndGo_fails_at:
  assumes "int i < concurrency c"
    and "\<forall>j. j < i \<longrightarrow> NewConnection c (nets j) = ([Opened (cs j)], Some (cs j), None)"
    and "NewConnection c (nets i) = (fevs, cn, Some e)"
  shows "ConnectAndGo c nets =
           (concat (map (\<lambda>j. connected (cs j)) [0..<i]) @ fevs
              @ [Log (FailedToConnect (addr c) (saddr c) e)] @ fst (Close (nets i) cn),
            case snd (Close (nets i) cn) of Return _ \<Rightarrow> Returned (Some e) | Fault \<Rightarrow> Panicked)"
proof -
  have d: "dial_loop c nets (int 0) (replicate (nat (concurrency c)) None) =
           (concat (map (\<lambda>j. connected (cs j)) [0..<i]) @ fevs
              @ [Log (FailedToConnect (addr c) (saddr c) e)] @ fst (Close (nets i) cn),
            Inl (case snd (Close (nets i) cn) of Return _ \<Rightarrow> Returned (Some e) | Fault \<Rightarrow> Panicked))"
    using assms by (intro dial_loop_fails_at) auto
  show ?thesis
    using assms(1) d by (simp add: ConnectAndGo_def)
qed

lemma NewConnection_failure:
  assumes "snd (snd (NewConnection c n)) = Some e"
  shows "NewConnection c n = (fst (NewConnection c n), None, Some e)
         \<and> pumps (fst (NewConnection c n)) = []
         \<and> closes (fst (NewConnection c n)) = []
         \<and> open_conns cs (fst (NewConnection c n)) = cs"
  using assms by (auto simp: NewConnection_def split: sum.splits)

lemma pumps_connected: "pumps (concat (map (\<lambda>j. connected (f j)) js)) = []"
  by (induction js) (simp_all add: connected_def pumps_append)

lemma closes_connected: "closes (concat (map (\<lambda>j. connected (f j)) js)) = []"
  by (induction js) (simp_all add: connected_def closes_append)

lemma open_conns_connected:
  "open_conns cs (concat (map (\<lambda>j. connected (f j)) js)) = cs @ map f js"
  by (induction js arbitrary: cs) (simp_all add: connected_def open_conns_append)

lemma pumps_Go_Handler: "pumps (map (\<lambda>j. Go (Handler h (f j))) js) = map (\<lambda>j. (h, f j)) js"
  by (induction js) simp_all

lemma NewConnection_success:
  assumes "snd (snd (NewConnection c n)) = None"
  shows "NewConnection c n =
           ([Opened (the (fst (snd (NewConnection c n))))],
            Some (the (fst (snd (NewConnection c n)))), None)"
  using assms by (auto simp: NewConnection_def split: sum.splits)

lemma ConnectAndGo_failed_dial:
  assumes "int i < concurrency c"
    and "\<forall>j. j < i \<longrightarrow> NewConnection c (nets j) = ([Opened (cs j)], Some (cs j), None)"
    and "snd (snd (NewConnection c (nets i))) = Some e"
  shows "ConnectAndGo c nets =
           (concat (map (\<lambda>j. connected (cs j)) [0..<i]) @ fst (NewConnection c (nets i))
              @ [Log (FailedToConnect (addr c) (saddr c) e), Closed None],
            case nilClose (nets i) of Return _ \<Rightarrow> Returned (Some e) | Fault \<Rightarrow> Panicked)"
proof -
  have f: "NewConnection c (nets i) = (fst (NewConnection c (nets i)), None, Some e)"
    using NewConnection_failure [OF assms(3)] by simp
  show ?thesis
    using ConnectAndGo_fails_at [OF assms(1) assms(2) f]
    by (simp add: Close_def split: call.splits)
qed

section \<open>Properties of every trace of the endpoints\<close>

lemma dial_loop_trace:
  "\<exists>cs l. fst (dial_loop c nets i conns) = concat (map connected cs) @ l
     \<and> (l = []
        \<or> (\<exists>e. l = [Log (FailedToConnect (addr c) (saddr c) e), Closed None])
        \<or> (\<exists>a e. l = [Log (FailedToResolve a), Log (FailedToConnect (addr c) (saddr c) e),
                        Closed None]))"
  (is "?P c nets i conns")
proof (induction c nets i conns rule: dial_loop.induct)
  case (1 c nets i conns)
  show ?case
  proof (cases "i < concurrency c")
    case False
    then have "fst (dial_loop c nets i conns) = concat (map connected []) @ []"
      by (subst dial_loop.simps) simp
    then show ?thesis by blast
  next
    case True
    consider (fail) e l where "NewConnection c (nets (nat i)) = (l, None, Some e)"
        "l = [] \<or> (\<exists>a. l = [Log (FailedToResolve a)])"
      | (ok) cn where "NewConnection c (nets (nat i)) = ([Opened cn], Some cn, None)"
      using NewConnection_cases [of c "nets (nat i)"] by blast
    then show ?thesis
    proof cases
      case fail
      have "fst (dial_loop c nets i conns) =
              concat (map connected []) @ (l @ [Log (FailedToConnect (addr c) (saddr c) e), Closed None])"
        using True fail(1) by (subst dial_loop.simps) (simp add: Close_def)
      with fail(2) show ?thesis by (metis append_Cons append_Nil)
    next
      case ok
      show ?thesis
      proof (cases "0 \<le> i \<and> nat i < length conns")
        case False
        then have "fst (dial_loop c nets i conns) = concat (map connected [cn]) @ []"
          using True ok by (subst dial_loop.simps) (auto simp: connected_def)
        then show ?thesis by blast
      next
        case inr: True
        from "1.IH" [OF True ok [symmetric] refl refl refl inr]
        obtain cs l where rec: "fst (dial_loop c nets (i + 1) (conns[nat i := Some cn])) =
            concat (map connected cs) @ l"
          and l: "l = []
            \<or> (\<exists>e. l = [Log (FailedToConnect (addr c) (saddr c) e), Closed None])
            \<or> (\<exists>a e. l = [Log (FailedToResolve a), Log (FailedToConnect (addr c) (saddr c) e),
                        Closed None])"
          by blast
        have "fst (dial_loop c nets i conns) = concat (map connected (cn # cs)) @ l"
          using True ok inr rec
          by (subst dial_loop.simps) (simp add: connected_def case_prod_beta)
        with l show ?thesis by blast
      qed
    qed
  qed
qed


lemma go_loop_trace:
  "(\<exists>ts. fst (go_loop c i conns) = map Go ts)
     \<and> (snd (go_loop c i conns) = Returned None \<or> snd (go_loop c i conns) = Panicked)"
proof (induction c i conns rule: go_loop.induct)
  case (1 c i conns)
  show ?case
  proof (cases "i < concurrency c \<and> 0 \<le> i \<and> nat i < length conns")
    case False
    then have "go_loop c i conns = ([], Returned None) \<or> go_loop c i conns = ([], Panicked)"
      by (subst go_loop.simps, subst (2) go_loop.simps) auto
    then show ?thesis by auto
  next
    case True
    then have a: "i < concurrency c" and b: "0 \<le> i \<and> nat i < length conns" by simp_all
    from "1.IH" [OF a b] obtain ts where
      ts: "fst (go_loop c (i + 1) conns) = map Go ts"
      and out: "snd (go_loop c (i + 1) conns) = Returned None \<or> snd (go_loop c (i + 1) conns) = Panicked"
      by blast
    have d: "go_loop c i conns =
        (Go (Handler (handler c) (conns ! nat i)) # fst (go_loop c (i + 1) conns),
         snd (go_loop c (i + 1) conns))"
      using a b by (subst go_loop.simps) (simp add: case_prod_beta)
    have f: "fst (go_loop c i conns) = map Go (Handler (handler c) (conns ! nat i) # ts)"
      unfolding d using ts by simp
    have o: "snd (go_loop c i conns) = snd (go_loop c (i + 1) conns)"
      unfolding d by simp
    show ?thesis using f o out by metis
  qed
qed

lemma allocations_connected: "allocations (concat (map connected cs)) = []"
  by (induction cs) (simp_all add: connected_def allocations_append)

lemma allocations_Go: "allocations (map Go ts) = []"
  by (induction ts) simp_all

lemma logged_Go: "logged (map Go ts) = []"
  by (induction ts) simp_all

lemma Finished_not_connected: "FinishedExecution \<notin> set (logged (concat (map connected cs)))"
  by (induction cs) (simp_all add: connected_def logged_append)

lemma allocations_dial_loop: "allocations (fst (dial_loop c nets i conns)) = []"
  using dial_loop_trace [of c nets i conns]
  by (auto simp: allocations_append allocations_connected)

lemma Finished_not_dial_loop: "FinishedExecution \<notin> set (logged (fst (dial_loop c nets i conns)))"
  using dial_loop_trace [of c nets i conns] Finished_not_connected
  by (auto simp: logged_append)

lemma allocations_go_loop: "allocations (fst (go_loop c i conns)) = []"
  using go_loop_trace [of c i conns] by (auto simp: allocations_Go)

lemma logged_go_loop: "logged (fst (go_loop c i conns)) = []"
  using go_loop_trace [of c i conns] by (auto simp: logged_Go)

lemma allocations_ConnectAndGo: "allocations (fst (ConnectAndGo c nets)) = []"
  by (simp add: ConnectAndGo_def case_prod_beta allocations_append allocations_dial_loop
        allocations_go_loop split: sum.splits)

lemma Finished_not_ConnectAndGo: "FinishedExecution \<notin> set (logged (fst (ConnectAndGo c nets)))"
  by (simp add: ConnectAndGo_def case_prod_beta logged_append Finished_not_dial_loop
        logged_go_loop split: sum.splits)

lemma allocations_accept_loop: "allocations (accept_loop s as) = []"
  by (induction s as rule: accept_loop.induct) simp_all

lemma allocations_ListenAndGo: "allocations (fst (ListenAndGo s nt)) = []"
  by (simp add: ListenAndGo_def allocations_accept_loop split: sum.splits)

lemma allocations_and_then:
  "allocations (fst call) = [] \<Longrightarrow> allocations (fst rest) = []
     \<Longrightarrow> allocations (fst (and_then call rest)) = []"
  by (simp add: and_then_def allocations_append split: outcome.splits)

lemma allocations_SigIntHandler: "allocations (fst (SigIntHandler s)) = []"
  by (simp add: SigIntHandler_def)

lemma main_client_trace:
  assumes "\<not> flag_listen f" "NArg f = 0" "0 \<le> flag_size f" "flag_size f \<le> make_limit w"
  shows "closes (fst (main f w)) = closes (fst (ConnectAndGo (main_Client f w) (network w)))
       \<and> open_conns [] (fst (main f w))
           = open_conns [] (fst (ConnectAndGo (main_Client f w) (network w)))
       \<and> pumps (fst (main f w)) = pumps (fst (ConnectAndGo (main_Client f w) (network w)))"
  using assms
  by (simp add: main_def Let_def and_then_def SigIntHandler_def closes_append
        open_conns_append pumps_append split: outcome.splits)

lemma main_server_flow:
  assumes "flag_listen f" "NArg f = 0" "0 \<le> flag_size f" "flag_size f \<le> make_limit w"
    and "flag_profile f = []"
  shows "main f w =
     ([MakeBuffer (nat (flag_size f)), Go RuntimeStats]
        @ fst (and_then (ListenAndGo (main_Server f w) (network w 0))
                ([Log FinishedExecution], Returned None)),
      snd (and_then (ListenAndGo (main_Server f w) (network w 0))
                ([Log FinishedExecution], Returned None)),
      replicate (nat (flag_size f)) 0)"
  using assms by (simp add: main_def Let_def)

lemma main_client_panics:
  assumes "\<not> flag_listen f" "NArg f = 0" "0 \<le> flag_size f" "flag_size f \<le> make_limit w"
    and "snd (ConnectAndGo (main_Client f w) (network w)) = Panicked"
  shows "fst (snd (main f w)) = Panicked
       \<and> logged (fst (main f w)) = logged (fst (ConnectAndGo (main_Client f w) (network w)))
       \<and> (fst (ConnectAndGo (main_Client f w) (network w)) \<noteq> []
            \<longrightarrow> last (fst (main f w)) = last (fst (ConnectAndGo (main_Client f w) (network w))))"
  using assms
  by (simp add: main_def Let_def and_then_def logged_append)

lemma and_then_extends: "\<exists>t. fst (and_then call rest) = fst call @ t"
  by (cases "snd call") (simp_all add: and_then_def)

lemma main_client_log:
  assumes "\<not> flag_listen f" "NArg f = 0" "0 \<le> flag_size f" "flag_size f \<le> make_limit w"
  shows "\<exists>t. logged (fst (main f w))
           = logged (fst (ConnectAndGo (main_Client f w) (network w))) @ t"
proof -
  obtain t where t: "fst (and_then (ConnectAndGo (main_Client f w) (network w))
        (and_then (SigIntHandler (SIGINT w)) ([Log FinishedExecution], Returned None)))
      = fst (ConnectAndGo (main_Client f w) (network w)) @ t"
    using and_then_extends by blast
  show ?thesis
    using assms by (simp add: main_def Let_def t logged_append)
qed

lemma main_client_never_finished:
  assumes "\<not> flag_listen f"
  shows "FinishedExecution \<notin> set (logged (fst (main f w)))"
proof -
  have "FinishedExecution \<notin> set (logged (fst
      (and_then (ConnectAndGo (main_Client f w) (network w))
        (and_then (SigIntHandler (SIGINT w)) ([Log FinishedExecution], Returned None)))))"
    using Finished_not_ConnectAndGo [of "main_Client f w" "network w"]
    by (simp add: and_then_def SigIntHandler_def logged_append split: outcome.splits)
  then show ?thesis
    using assms by (simp add: main_def Let_def logged_append)
qed

lemma main_client_waits:
  assumes "\<not> flag_listen f" "NArg f = 0" "0 \<le> flag_size f" "flag_size f \<le> make_limit w"
    and "snd (ConnectAndGo (main_Client f w) (network w)) = Returned r"
  shows "fst (snd (main f w)) = (if SIGINT w then Exited 0 else Blocked)
       \<and> logged (fst (main f w))
           = logged (fst (ConnectAndGo (main_Client f w) (network w)))
               @ (if SIGINT w then [CtrlCExiting] else [])"
  using assms
  by (simp add: main_def Let_def and_then_def SigIntHandler_def logged_append)

lemma logged_member: "Log l \<in> set evs \<Longrightarrow> l \<in> set (logged evs)"
  by (induction evs rule: logged.induct) auto

section \<open>Properties of the buffer\<close>

lemma write_loop_frame: "snd (snd (write_loop c b ws)) = b"
  by (induction c b ws rule: write_loop.induct) (simp_all split: option.splits)

lemma length_fill: "length (fill b data) = length b"
  by (simp add: fill_def)

lemma read_loop_length: "length (snd (snd (read_loop c b rs))) = length b"
  by (induction c b rs rule: read_loop.induct) (simp_all add: length_fill split: option.splits)

lemma pumps_accept_loop: "fst ` set (pumps (accept_loop s as)) \<subseteq> {Server.handler s}"
  by (induction s as rule: accept_loop.induct) simp_all

lemma pumps_ListenAndGo: "fst ` set (pumps (fst (ListenAndGo s nt))) \<subseteq> {Server.handler s}"
  using pumps_accept_loop [of s] by (simp add: ListenAndGo_def split: sum.splits)

section \<open>The unused fields\<close>

lemma NewConnection_unused_fields:
  "NewConnection (c\<lparr>nflight := n, reqres := r\<rparr>) nt = NewConnection c nt"
  by (simp add: NewConnection_def split: sum.splits)

lemma dial_loop_unused_fields:
  "dial_loop (c\<lparr>nflight := n, reqres := r\<rparr>) nets i conns = dial_loop c nets i conns"
proof (induction c nets i conns rule: dial_loop.induct)
  case (1 c nets i conns)
  show ?case
    apply (subst dial_loop.simps)
    apply (subst (2) dial_loop.simps)
    using 1 by (auto simp: NewConnection_unused_fields split: prod.splits option.splits call.splits)
qed

lemma go_loop_unused_fields:
  "go_loop (c\<lparr>nflight := n, reqres := r\<rparr>) i conns = go_loop c i conns"
proof (induction c i conns rule: go_loop.induct)
  case (1 c i conns)
  show ?case
    apply (subst go_loop.simps)
    apply (subst (2) go_loop.simps)
    using 1 by (auto split: prod.splits)
qed

lemma ConnectAndGo_unused_fields:
  "ConnectAndGo (c\<lparr>nflight := n, reqres := r\<rparr>) nets = ConnectAndGo c nets"
  by (simp add: ConnectAndGo_def dial_loop_unused_fields go_loop_unused_fields)

lemma make_limit_host_os: "make_max w = 65536 \<Longrightarrow> make_limit w = 65536"
  by (simp add: make_limit_def maxAlloc_def)

lemmas env_defs = main_Client_def main_Server_def defaults_def make_limit_host_os host_os_def
  refuses_after_def
  up_def down_def no_dns_def loopback_def NewConnection_def

section \<open>The claims about the pumps\<close>

text \<open>
  Claim C4: the termination policy of the two pumps. Whatever number of reads (writes)
  succeeded before, at the first call that reports an error the pump ends: on \<^verbatim>\<open>io.EOF\<close>
  it logs the disconnect, closes the connection and returns nil; on any other error it
  logs that error, closes the connection and returns that same error. In both cases the
  trace of the pump holds exactly one \<^verbatim>\<open>Close\<close>, on the pump's own connection.
\<close>

theorem pump_termination_policy:
  "TCPConnRead ps c b (map (\<lambda>d. (d, None)) ds @ (d, Some e) # rest) =
     ([SetReadBuffer c ps,
       Log (if e = EOF then ClientDisconnected (RemoteAddr c) else FailedReading c e),
       Closed (Some c)],
      Returned (if e = EOF then None else Some e),
      fill (foldl fill b ds) d)
   \<and> closes (fst (TCPConnRead ps c b (map (\<lambda>d. (d, None)) ds @ (d, Some e) # rest))) = [Some c]
   \<and> TCPConnWrite ps c b (map (\<lambda>n. (n, None)) ns @ (n, Some e) # rest') =
     ([SetWriteBuffer c ps,
       Log (if e = EOF then ClientDisconnected (RemoteAddr c) else FailedWriting c e),
       Closed (Some c)],
      Returned (if e = EOF then None else Some e),
      b)
   \<and> closes (fst (TCPConnWrite ps c b (map (\<lambda>n. (n, None)) ns @ (n, Some e) # rest'))) = [Some c]"
  by (simp add: TCPConnRead_def TCPConnWrite_def read_loop_until_error write_loop_until_error)

text \<open>
  Claim C5 (scenario 4) does not hold of the code. \<^verbatim>\<open>net\<close>'s \<^verbatim>\<open>Write\<close> reports a connection
  that the peer has closed as an error of its own (a broken pipe or a reset connection
  in a \<^verbatim>\<open>*net.OpError\<close>); \<^verbatim>\<open>io.EOF\<close> is what \<^verbatim>\<open>Read\<close> reports. The test of line 118 is
  the one of the read pump, and on every error that is not \<^verbatim>\<open>io.EOF\<close>, after any number
  of writes that succeeded, the write pump takes the other branch: it logs "Failed
  writing bytes to conn", closes the connection and returns the error. It does not log
  the disconnect and does not return nil.
\<close>

theorem write_pump_peer_close:
  "TCPConnWrite ps c b (map (\<lambda>n. (n, None)) ns @ (n, Some (Err m)) # rest) =
     ([SetWriteBuffer c ps, Log (FailedWriting c (Err m)), Closed (Some c)],
      Returned (Some (Err m)), b)
   \<and> logged (fst (TCPConnWrite ps c b (map (\<lambda>n. (n, None)) ns @ (n, Some (Err m)) # rest)))
       = [FailedWriting c (Err m)]
   \<and> ClientDisconnected (RemoteAddr c)
       \<notin> set (logged (fst (TCPConnWrite ps c b
                              (map (\<lambda>n. (n, None)) ns @ (n, Some (Err m)) # rest))))
   \<and> fst (snd (TCPConnWrite ps c b (map (\<lambda>n. (n, None)) ns @ (n, Some (Err m)) # rest)))
       \<noteq> Returned None
   \<and> TCPConnWrite 1500 (loopback 7) (replicate 1500 0) [(0, Some (Err ''write: broken pipe''))] =
     ([SetWriteBuffer (loopback 7) 1500,
       Log (FailedWriting (loopback 7) (Err ''write: broken pipe'')),
       Closed (Some (loopback 7))],
      Returned (Some (Err ''write: broken pipe'')), replicate 1500 0)"
  by (simp add: TCPConnWrite_def write_loop_until_error)

section \<open>The claims about the dialing endpoint\<close>

text \<open>
  Claim C2 does not hold of the code. When the dials before the \<open>i\<close>-th succeed and the
  \<open>i\<close>-th fails with \<open>e\<close>, no pump is started, for none of the connections, neither by
  \<^verbatim>\<open>ConnectAndGo\<close> nor by the whole Client-role run of \<^verbatim>\<open>main\<close>: that half of the claim
  holds. But \<^verbatim>\<open>ConnectAndGo\<close> does not return \<open>e\<close>: line 79 calls \<^verbatim>\<open>Close\<close> on the nil
  connection of the failed dial before the \<^verbatim>\<open>return err\<close> of line 80, the call faults,
  and the call of \<^verbatim>\<open>ConnectAndGo\<close> and the run of \<^verbatim>\<open>main\<close> end in a panic.
\<close>

theorem failed_dial_panics_before_return:
  assumes "int i < concurrency c"
    and "\<forall>j<i. snd (snd (NewConnection c (nets j))) = None"
    and "snd (snd (NewConnection c (nets i))) = Some e"
    and "nilClose (nets i) = Fault"
  shows "pumps (fst (ConnectAndGo c nets)) = []
         \<and> snd (ConnectAndGo c nets) = Panicked
         \<and> snd (ConnectAndGo c nets) \<noteq> Returned (Some e)
         \<and> (\<not> flag_listen f \<and> NArg f = 0 \<and> 0 \<le> flag_size f \<and> flag_size f \<le> make_limit w
              \<and> main_Client f w = c \<and> network w = nets
            \<longrightarrow> pumps (fst (main f w)) = [] \<and> fst (snd (main f w)) = Panicked)"
proof -
  define cs where "cs j = the (fst (snd (NewConnection c (nets j))))" for j
  have ok: "\<forall>j. j < i \<longrightarrow> NewConnection c (nets j) = ([Opened (cs j)], Some (cs j), None)"
    using assms(2) NewConnection_success unfolding cs_def by blast
  have tr: "ConnectAndGo c nets =
           (concat (map (\<lambda>j. connected (cs j)) [0..<i]) @ fst (NewConnection c (nets i))
              @ [Log (FailedToConnect (addr c) (saddr c) e), Closed None],
            case nilClose (nets i) of Return _ \<Rightarrow> Returned (Some e) | Fault \<Rightarrow> Panicked)"
    by (rule ConnectAndGo_failed_dial [OF assms(1) ok assms(3)])
  have np: "pumps (fst (NewConnection c (nets i))) = []"
    using NewConnection_failure [OF assms(3)] by simp
  have p: "pumps (fst (ConnectAndGo c nets)) = []"
    unfolding tr using np by (simp add: pumps_append pumps_connected)
  have r: "snd (ConnectAndGo c nets) = Panicked"
    unfolding tr using assms(4) by simp
  show ?thesis
    using p r main_client_trace [of f w] main_client_panics [of f w] by auto
qed

theorem failed_dial_panics_before_return_witness:
  "pumps (fst (ConnectAndGo
          (main_Client (defaults\<lparr>flag_nconn := 3\<rparr>) (host_os (refuses_after 2 Fault) True))
          (refuses_after 2 Fault))) = []
   \<and> snd (ConnectAndGo
          (main_Client (defaults\<lparr>flag_nconn := 3\<rparr>) (host_os (refuses_after 2 Fault) True))
          (refuses_after 2 Fault))
       \<noteq> Returned (Some (Err ''connection refused''))
   \<and> pumps (fst (main (defaults\<lparr>flag_nconn := 3\<rparr>) (host_os (refuses_after 2 Fault) True)))
       = []
   \<and> fst (snd (main (defaults\<lparr>flag_nconn := 3\<rparr>) (host_os (refuses_after 2 Fault) True)))
       = Panicked"
  using failed_dial_panics_before_return
    [of 2 "main_Client (defaults\<lparr>flag_nconn := 3\<rparr>) (host_os (refuses_after 2 Fault) True)"
        "refuses_after 2 Fault" "Err ''connection refused''"
        "defaults\<lparr>flag_nconn := 3\<rparr>" "host_os (refuses_after 2 Fault) True"]
  by (simp add: env_defs)

text \<open>
  Claim C6: with \<open>N = concurrency c\<close> at least 1, the read handler in the \<^verbatim>\<open>Client\<close>, and
  all \<open>N\<close> dials succeeding with \<open>cs 0\<close>, ..., \<open>cs (N - 1)\<close>: the trace of \<^verbatim>\<open>ConnectAndGo\<close>
  is the \<open>N\<close> connections in index order, then one \<^verbatim>\<open>go\<close> of the read pump per
  connection, in index order, and the call returns nil. So exactly \<open>N\<close> pumps are
  started, one per connection, and all \<open>N\<close> connections are open. The pumps of the whole
  Client-role run of \<^verbatim>\<open>main\<close> are these \<open>N\<close>.
\<close>

theorem client_starts_one_pump_per_connection:
  assumes "1 \<le> concurrency c" and "handler c = ReadPump"
    and "\<forall>j < nat (concurrency c). NewConnection c (nets j) = ([Opened (cs j)], Some (cs j), None)"
  shows "ConnectAndGo c nets =
           (concat (map (\<lambda>j. connected (cs j)) [0..<nat (concurrency c)])
              @ map (\<lambda>j. Go (Handler ReadPump (Some (cs j)))) [0..<nat (concurrency c)],
            Returned None)
         \<and> open_conns [] (fst (ConnectAndGo c nets)) = map cs [0..<nat (concurrency c)]
         \<and> pumps (fst (ConnectAndGo c nets)) =
             map (\<lambda>j. (ReadPump, Some (cs j))) [0..<nat (concurrency c)]
         \<and> int (length (pumps (fst (ConnectAndGo c nets)))) = concurrency c
         \<and> (\<not> flag_listen f \<and> NArg f = 0 \<and> 0 \<le> flag_size f \<and> flag_size f \<le> make_limit w
              \<and> main_Client f w = c \<and> network w = nets
            \<longrightarrow> pumps (fst (main f w)) =
                  map (\<lambda>j. (ReadPump, Some (cs j))) [0..<nat (concurrency c)])"
proof -
  have ok: "\<forall>j. j < nat (concurrency c) \<longrightarrow> NewConnection c (nets j) = ([Opened (cs j)], Some (cs j), None)"
    using assms(3) by blast
  have tr: "ConnectAndGo c nets =
           (concat (map (\<lambda>j. connected (cs j)) [0..<nat (concurrency c)])
              @ map (\<lambda>j. Go (Handler ReadPump (Some (cs j)))) [0..<nat (concurrency c)],
            Returned None)"
    using ConnectAndGo_all_ok [OF _ ok] assms(1,2) by simp
  have oc: "open_conns (map cs [0..<nat (concurrency c)])
              (map (\<lambda>j. Go (Handler ReadPump (Some (cs j)))) js) = map cs [0..<nat (concurrency c)]" for js
    by (induction js) simp_all
  have p: "pumps (fst (ConnectAndGo c nets)) =
             map (\<lambda>j. (ReadPump, Some (cs j))) [0..<nat (concurrency c)]"
    unfolding tr by (simp add: pumps_append pumps_connected pumps_Go_Handler)
  have rest: "open_conns [] (fst (ConnectAndGo c nets)) = map cs [0..<nat (concurrency c)]
      \<and> int (length (pumps (fst (ConnectAndGo c nets)))) = concurrency c"
    unfolding p unfolding tr using assms(1) oc
    by (simp add: open_conns_append open_conns_connected)
  show ?thesis
    using tr p rest main_client_trace [of f w] by auto
qed

theorem client_starts_one_pump_per_connection_witness:
  "ConnectAndGo (main_Client (defaults\<lparr>flag_nconn := 2\<rparr>) (host_os (up []) True)) (up []) =
     ([Opened (loopback 0), Log (ClientConnectedTo ''127.0.0.1:0'' ''127.0.0.1:12345''),
       Opened (loopback 1), Log (ClientConnectedTo ''127.0.0.1:0'' ''127.0.0.1:12345''),
       Go (Handler ReadPump (Some (loopback 0))), Go (Handler ReadPump (Some (loopback 1)))],
      Returned None)
   \<and> pumps (fst (ConnectAndGo (main_Client (defaults\<lparr>flag_nconn := 2\<rparr>) (host_os (up []) True)) (up [])))
       = [(ReadPump, Some (loopback 0)), (ReadPump, Some (loopback 1))]
   \<and> pumps (fst (main (defaults\<lparr>flag_nconn := 2\<rparr>) (host_os (up []) True)))
       = [(ReadPump, Some (loopback 0)), (ReadPump, Some (loopback 1))]"
  using client_starts_one_pump_per_connection
    [of "main_Client (defaults\<lparr>flag_nconn := 2\<rparr>) (host_os (up []) True)" "up []" loopback
        "defaults\<lparr>flag_nconn := 2\<rparr>" "host_os (up []) True"]
  by (simp add: env_defs connected_def upt_rec numeral_2_eq_2)



text \<open>
  Claim C10 does not hold of the code. On a failing dial \<^verbatim>\<open>NewConnection\<close> returns a nil
  connection, and \<^verbatim>\<open>ConnectAndGo\<close> calls \<^verbatim>\<open>Close\<close> on that nil value as the last thing it
  does (line 79): so far the claim. The call is not a no-op: it faults on the nil
  receiver, so the error branch crashes. \<^verbatim>\<open>ConnectAndGo\<close> ends in a panic on every
  failing dial, and the Client-role run of \<^verbatim>\<open>main\<close> ends there too, with the \<^verbatim>\<open>Close\<close> on
  nil as its last event and exit status 2.
\<close>

theorem nil_close_on_failed_dial:
  assumes "int i < concurrency c"
    and "\<forall>j<i. snd (snd (NewConnection c (nets j))) = None"
    and "snd (snd (NewConnection c (nets i))) = Some e"
    and "nilClose (nets i) = Fault"
  shows "fst (snd (NewConnection c (nets i))) = None
         \<and> closes (fst (ConnectAndGo c nets)) = [None]
         \<and> last (fst (ConnectAndGo c nets)) = Closed None
         \<and> snd (ConnectAndGo c nets) = Panicked
         \<and> (\<not> flag_listen f \<and> NArg f = 0 \<and> 0 \<le> flag_size f \<and> flag_size f \<le> make_limit w
              \<and> main_Client f w = c \<and> network w = nets
            \<longrightarrow> last (fst (main f w)) = Closed None
                \<and> fst (snd (main f w)) = Panicked
                \<and> exit_status (fst (snd (main f w))) = Some 2)"
proof -
  define cs where "cs j = the (fst (snd (NewConnection c (nets j))))" for j
  have ok: "\<forall>j. j < i \<longrightarrow> NewConnection c (nets j) = ([Opened (cs j)], Some (cs j), None)"
    using assms(2) NewConnection_success unfolding cs_def by blast
  have tr: "ConnectAndGo c nets =
           (concat (map (\<lambda>j. connected (cs j)) [0..<i]) @ fst (NewConnection c (nets i))
              @ [Log (FailedToConnect (addr c) (saddr c) e), Closed None],
            case nilClose (nets i) of Return _ \<Rightarrow> Returned (Some e) | Fault \<Rightarrow> Panicked)"
    by (rule ConnectAndGo_failed_dial [OF assms(1) ok assms(3)])
  have nil: "fst (snd (NewConnection c (nets i))) = None"
    using assms(3) NewConnection_nil_iff [of c "nets i"] by simp
  have nc: "closes (fst (NewConnection c (nets i))) = []"
    using NewConnection_failure [OF assms(3)] by simp
  have a: "closes (fst (ConnectAndGo c nets)) = [None]
         \<and> last (fst (ConnectAndGo c nets)) = Closed None
         \<and> snd (ConnectAndGo c nets) = Panicked
         \<and> fst (ConnectAndGo c nets) \<noteq> []"
    unfolding tr using nc assms(4)
    by (simp add: closes_append closes_connected)
  show ?thesis
    using nil a main_client_panics [of f w] by auto
qed

theorem nil_close_on_failed_dial_witness:
  "fst (snd (NewConnection
          (main_Client (defaults\<lparr>flag_nconn := 1\<rparr>) (host_os (refuses_after 0 Fault) True))
          (refuses_after 0 Fault 0))) = None
   \<and> ConnectAndGo
          (main_Client (defaults\<lparr>flag_nconn := 1\<rparr>) (host_os (refuses_after 0 Fault) True))
          (refuses_after 0 Fault)
       = ([Log (FailedToConnect ''127.0.0.1:12345'' ''127.0.0.1:0'' (Err ''connection refused'')),
           Closed None], Panicked)
   \<and> last (fst (main (defaults\<lparr>flag_nconn := 1\<rparr>) (host_os (refuses_after 0 Fault) True)))
       = Closed None
   \<and> exit_status (fst (snd (main (defaults\<lparr>flag_nconn := 1\<rparr>)
                                (host_os (refuses_after 0 Fault) True)))) = Some 2"
proof -
  let ?c = "main_Client (defaults\<lparr>flag_nconn := 1\<rparr>) (host_os (refuses_after 0 Fault) True)"
  have c: "ConnectAndGo ?c (refuses_after 0 Fault)
       = ([Log (FailedToConnect ''127.0.0.1:12345'' ''127.0.0.1:0'' (Err ''connection refused'')),
           Closed None], Panicked)"
    using ConnectAndGo_failed_dial [of 0 ?c "refuses_after 0 Fault" loopback
        "Err ''connection refused''"]
    by (simp add: env_defs)
  show ?thesis
    using nil_close_on_failed_dial
      [of 0 ?c "refuses_after 0 Fault" "Err ''connection refused''"
          "defaults\<lparr>flag_nconn := 1\<rparr>" "host_os (refuses_after 0 Fault) True"] c
    by (simp add: env_defs)
qed

section \<open>The claims about the buffer and the top-level flow\<close>

text \<open>
  Claim C1, as stated, fails: a read pump hands the global slice \<^verbatim>\<open>b\<close> to \<^verbatim>\<open>c.Read\<close> as
  the destination (line 94), so one read of one byte changes the contents of the buffer.
\<close>

theorem read_pump_overwrites_buffer:
  "snd (snd (TCPConnRead 2 (loopback 0) [0, 0] [([7], None)])) = [7, 0]
   \<and> snd (snd (TCPConnRead 2 (loopback 0) [0, 0] [([7], None)])) \<noteq> [0, 0]"
  by (simp add: TCPConnRead_def fill_def)

text \<open>
  Claim C1, amended: no operation of a write pump changes the buffer, whatever its writes
  report; a read pump may overwrite the contents of the buffer with the bytes it receives
  and keeps only its length; and a process in the Server role starts write pumps only, so
  while write pumps run no pump stores into the buffer they read.
\<close>

theorem buffer_frame:
  "snd (snd (TCPConnWrite ps c b ws)) = b
   \<and> length (snd (snd (TCPConnRead ps c b rs))) = length b
   \<and> (flag_listen f \<longrightarrow> fst ` set (pumps (fst (main f w))) \<subseteq> {WritePump})"
proof -
  have w: "snd (snd (TCPConnWrite ps c b ws)) = b"
    using write_loop_frame [of c b ws] by (simp add: TCPConnWrite_def case_prod_beta)
  have r: "length (snd (snd (TCPConnRead ps c b rs))) = length b"
    using read_loop_length [of c b rs] by (simp add: TCPConnRead_def case_prod_beta)
  have l: "fst ` set (pumps (fst (ListenAndGo (main_Server f w) (network w 0)))) \<subseteq> {WritePump}"
    using pumps_ListenAndGo [of "main_Server f w" "network w 0"]
    by (simp add: main_Server_def)
  have m: "fst ` set (pumps (fst (main f w))) \<subseteq> {WritePump}" if "flag_listen f"
    using that l
    by (simp add: main_def Let_def and_then_def pumps_append split: outcome.splits)
  show ?thesis using w r m by blast
qed

theorem buffer_frame_witness:
  "snd (snd (TCPConnWrite 2 (loopback 7) [0, 0] [(2, None), (0, Some EOF)])) = [0, 0]
   \<and> length (snd (snd (TCPConnRead 2 (loopback 7) [0, 0] [([9], None), ([], Some EOF)]))) = 2
   \<and> fst ` set (pumps (fst (main (defaults\<lparr>flag_listen := True\<rparr>)
                                (host_os (up [loopback 7]) False)))) \<subseteq> {WritePump}"
  using buffer_frame [of 2 "loopback 7" "[0, 0]" "[(2, None), (0, Some EOF)]"
      "[([9], None), ([], Some EOF)]" "defaults\<lparr>flag_listen := True\<rparr>"
      "host_os (up [loopback 7]) False"]
  by (simp add: defaults_def)

text \<open>
  Claim C3, as stated, fails in the Client role. With the one dial of the run refused,
  \<^verbatim>\<open>ConnectAndGo\<close> logs the error and the run ends at line 79, in the panic of the \<^verbatim>\<open>Close\<close>
  on the nil connection: nothing is returned to \<^verbatim>\<open>main\<close>, "Finished execution!" is not
  logged, and the exit status is 2.
\<close>

theorem refused_dial_ends_client_run:
  "main (defaults\<lparr>flag_nconn := 1\<rparr>) (host_os (refuses_after 0 Fault) True) =
     ([MakeBuffer 1500, Go RuntimeStats,
       Log (FailedToConnect ''127.0.0.1:12345'' ''127.0.0.1:0'' (Err ''connection refused'')),
       Closed None],
      Panicked, replicate 1500 0)
   \<and> FinishedExecution \<notin> set (logged (fst (main (defaults\<lparr>flag_nconn := 1\<rparr>)
        (host_os (refuses_after 0 Fault) True))))
   \<and> exit_status (fst (snd (main (defaults\<lparr>flag_nconn := 1\<rparr>)
        (host_os (refuses_after 0 Fault) True)))) = Some 2"
proof -
  let ?nets = "refuses_after 0 Fault"
  let ?c = "main_Client (defaults\<lparr>flag_nconn := 1\<rparr>) (host_os ?nets True)"
  have c: "ConnectAndGo ?c ?nets =
      ([Log (FailedToConnect ''127.0.0.1:12345'' ''127.0.0.1:0'' (Err ''connection refused'')),
        Closed None],
       Panicked)"
    using ConnectAndGo_failed_dial [of 0 ?c ?nets loopback "Err ''connection refused''"]
    by (simp add: env_defs)
  have n: "network (host_os ?nets True) = ?nets"
    by (simp add: host_os_def)
  have m: "main (defaults\<lparr>flag_nconn := 1\<rparr>) (host_os ?nets True) =
     ([MakeBuffer 1500, Go RuntimeStats,
       Log (FailedToConnect ''127.0.0.1:12345'' ''127.0.0.1:0'' (Err ''connection refused'')),
       Closed None],
      Panicked, replicate 1500 0)"
    unfolding main_def n c
    by (simp add: defaults_def make_limit_host_os host_os_def and_then_def)
  show ?thesis
    unfolding m by simp
qed

text \<open>
  Claim C3, amended, for a run that reaches the startup call (no argument left over,
  the buffer allocated) without \<^verbatim>\<open>-profile\<close>. Server role: when the address does not
  resolve, or resolves and cannot be listened on, \<^verbatim>\<open>ListenAndGo\<close> logs that error and
  returns it, and the whole run of \<^verbatim>\<open>main\<close> is: the buffer, the statistics goroutine, that
  log line, "Finished execution!", and a return, status 0. Client role: \<^verbatim>\<open>main\<close> never
  logs "Finished execution!"; a failing dial is logged by \<^verbatim>\<open>ConnectAndGo\<close>; and whenever
  \<^verbatim>\<open>ConnectAndGo\<close> returns, \<^verbatim>\<open>main\<close> goes on to \<^verbatim>\<open>SigIntHandler\<close>, logs nothing until SIGINT
  arrives, and then logs "CTRL-C; exiting" and exits with status 0. How \<^verbatim>\<open>ConnectAndGo\<close>
  ends after it has logged a failing dial is claim C10.
\<close>

theorem startup_errors_in_main:
  assumes "NArg f = 0" and "0 \<le> flag_size f" and "flag_size f \<le> make_limit w"
    and "flag_profile f = []"
  shows "(flag_listen f
          \<and> ResolveTCPAddr (network w 0) (Server.proto (main_Server f w))
               (Server.addr (main_Server f w)) = Inl e
          \<longrightarrow> ListenAndGo (main_Server f w) (network w 0)
                = ([Log (FailedToResolveWith (Server.addr (main_Server f w)) e)],
                   Returned (Some e))
              \<and> main f w
                = ([MakeBuffer (nat (flag_size f)), Go RuntimeStats,
                    Log (FailedToResolveWith (Server.addr (main_Server f w)) e),
                    Log FinishedExecution],
                   Returned None, replicate (nat (flag_size f)) 0)
              \<and> exit_status (fst (snd (main f w))) = Some 0)
       \<and> (flag_listen f
          \<and> ResolveTCPAddr (network w 0) (Server.proto (main_Server f w))
               (Server.addr (main_Server f w)) = Inr a
          \<and> ListenTCP (network w 0) (Server.proto (main_Server f w)) a = Inl e
          \<longrightarrow> ListenAndGo (main_Server f w) (network w 0)
                = ([Log (FailedToListen (Server.addr (main_Server f w)) e)],
                   Returned (Some e))
              \<and> main f w
                = ([MakeBuffer (nat (flag_size f)), Go RuntimeStats,
                    Log (FailedToListen (Server.addr (main_Server f w)) e),
                    Log FinishedExecution],
                   Returned None, replicate (nat (flag_size f)) 0)
              \<and> exit_status (fst (snd (main f w))) = Some 0)
       \<and> (\<not> flag_listen f \<longrightarrow> FinishedExecution \<notin> set (logged (fst (main f w))))
       \<and> (\<not> flag_listen f \<and> int i < flag_nconn f
          \<and> (\<forall>j<i. snd (snd (NewConnection (main_Client f w) (network w j))) = None)
          \<and> snd (snd (NewConnection (main_Client f w) (network w i))) = Some e
          \<longrightarrow> FailedToConnect (addr (main_Client f w)) (saddr (main_Client f w)) e
                \<in> set (logged (fst (main f w))))
       \<and> (\<not> flag_listen f
          \<and> snd (ConnectAndGo (main_Client f w) (network w)) = Returned r
          \<longrightarrow> fst (snd (main f w)) = (if SIGINT w then Exited 0 else Blocked)
              \<and> logged (fst (main f w))
                 = logged (fst (ConnectAndGo (main_Client f w) (network w)))
                     @ (if SIGINT w then [CtrlCExiting] else []))"
proof (intro conjI impI)
  assume a: "flag_listen f
      \<and> ResolveTCPAddr (network w 0) (Server.proto (main_Server f w))
           (Server.addr (main_Server f w)) = Inl e"
  then show l: "ListenAndGo (main_Server f w) (network w 0)
      = ([Log (FailedToResolveWith (Server.addr (main_Server f w)) e)], Returned (Some e))"
    by (simp add: ListenAndGo_def)
  from a assms show m: "main f w
      = ([MakeBuffer (nat (flag_size f)), Go RuntimeStats,
          Log (FailedToResolveWith (Server.addr (main_Server f w)) e), Log FinishedExecution],
         Returned None, replicate (nat (flag_size f)) 0)"
    by (simp add: main_server_flow l and_then_def)
  show "exit_status (fst (snd (main f w))) = Some 0"
    unfolding m by simp
next
  assume a: "flag_listen f
      \<and> ResolveTCPAddr (network w 0) (Server.proto (main_Server f w))
           (Server.addr (main_Server f w)) = Inr a
      \<and> ListenTCP (network w 0) (Server.proto (main_Server f w)) a = Inl e"
  then show l: "ListenAndGo (main_Server f w) (network w 0)
      = ([Log (FailedToListen (Server.addr (main_Server f w)) e)], Returned (Some e))"
    by (simp add: ListenAndGo_def)
  from a assms show m: "main f w
      = ([MakeBuffer (nat (flag_size f)), Go RuntimeStats,
          Log (FailedToListen (Server.addr (main_Server f w)) e), Log FinishedExecution],
         Returned None, replicate (nat (flag_size f)) 0)"
    by (simp add: main_server_flow l and_then_def)
  show "exit_status (fst (snd (main f w))) = Some 0"
    unfolding m by simp
next
  assume "\<not> flag_listen f"
  then show "FinishedExecution \<notin> set (logged (fst (main f w)))"
    by (rule main_client_never_finished)
next
  assume a: "\<not> flag_listen f \<and> int i < flag_nconn f
      \<and> (\<forall>j<i. snd (snd (NewConnection (main_Client f w) (network w j))) = None)
      \<and> snd (snd (NewConnection (main_Client f w) (network w i))) = Some e"
  let ?c = "main_Client f w"
  define cs where "cs j = the (fst (snd (NewConnection ?c (network w j))))" for j
  have ok: "\<forall>j. j < i \<longrightarrow> NewConnection ?c (network w j) = ([Opened (cs j)], Some (cs j), None)"
    using a NewConnection_success unfolding cs_def by blast
  have i: "int i < concurrency ?c"
    using a by (simp add: main_Client_def)
  have f: "snd (snd (NewConnection ?c (network w i))) = Some e"
    using a by simp
  have "Log (FailedToConnect (addr ?c) (saddr ?c) e) \<in> set (fst (ConnectAndGo ?c (network w)))"
    unfolding ConnectAndGo_failed_dial [OF i ok f] by simp
  then have "FailedToConnect (addr ?c) (saddr ?c) e \<in> set (logged (fst (ConnectAndGo ?c (network w))))"
    by (rule logged_member)
  moreover obtain t where "logged (fst (main f w)) = logged (fst (ConnectAndGo ?c (network w))) @ t"
    using main_client_log [of f w] a assms by blast
  ultimately show "FailedToConnect (addr ?c) (saddr ?c) e \<in> set (logged (fst (main f w)))"
    by simp
next
  assume a: "\<not> flag_listen f \<and> snd (ConnectAndGo (main_Client f w) (network w)) = Returned r"
  with assms main_client_waits [of f w r]
  show "fst (snd (main f w)) = (if SIGINT w then Exited 0 else Blocked)"
    and "logged (fst (main f w))
       = logged (fst (ConnectAndGo (main_Client f w) (network w)))
           @ (if SIGINT w then [CtrlCExiting] else [])"
    by simp_all
qed

theorem startup_errors_in_main_witness:
  "main (defaults\<lparr>flag_listen := True\<rparr>) (host_os (\<lambda>j. no_dns) False)
     = ([MakeBuffer 1500, Go RuntimeStats,
         Log (FailedToResolveWith ''127.0.0.1:12345'' (Err ''no such host'')),
         Log FinishedExecution],
        Returned None, replicate 1500 0)
   \<and> main (defaults\<lparr>flag_listen := True\<rparr>) (host_os (\<lambda>j. down Fault) False)
     = ([MakeBuffer 1500, Go RuntimeStats,
         Log (FailedToListen ''127.0.0.1:12345'' (Err ''address already in use'')),
         Log FinishedExecution],
        Returned None, replicate 1500 0)
   \<and> FailedToConnect ''127.0.0.1:12345'' ''127.0.0.1:0'' (Err ''connection refused'')
       \<in> set (logged (fst (main (defaults\<lparr>flag_nconn := 1\<rparr>)
                              (host_os (refuses_after 0 Fault) True))))
   \<and> FinishedExecution
       \<notin> set (logged (fst (main (defaults\<lparr>flag_nconn := 1\<rparr>)
                              (host_os (refuses_after 0 Fault) True))))
   \<and> fst (snd (main (defaults\<lparr>flag_nconn := 1\<rparr>) (host_os (up []) True))) = Exited 0
   \<and> logged (fst (main (defaults\<lparr>flag_nconn := 1\<rparr>) (host_os (up []) True)))
     = [ClientConnectedTo ''127.0.0.1:0'' ''127.0.0.1:12345'', CtrlCExiting]"
proof -
  let ?f1 = "defaults\<lparr>flag_listen := True\<rparr>"
  let ?f2 = "defaults\<lparr>flag_nconn := 1\<rparr>"
  let ?w3 = "host_os (refuses_after 0 Fault) True"
  let ?w4 = "host_os (up []) True"
  have C: "ConnectAndGo (main_Client ?f2 ?w4) (network ?w4) =
      ([Opened (loopback 0), Log (ClientConnectedTo ''127.0.0.1:0'' ''127.0.0.1:12345''),
        Go (Handler ReadPump (Some (loopback 0)))],
       Returned None)"
    using ConnectAndGo_all_ok [of "main_Client ?f2 ?w4" "network ?w4" loopback]
    by (simp add: env_defs up_def loopback_def NewConnection_def connected_def)
  show ?thesis
    using startup_errors_in_main
        [where f = ?f1 and w = "host_os (\<lambda>j. no_dns) False" and e = "Err ''no such host''"]
      startup_errors_in_main
        [where f = ?f1 and w = "host_os (\<lambda>j. down Fault) False"
           and a = "''127.0.0.1:12345''" and e = "Err ''address already in use''"]
      startup_errors_in_main
        [where f = ?f2 and w = ?w3 and i = 0 and e = "Err ''connection refused''"]
      startup_errors_in_main [where f = ?f2 and w = ?w4 and r = None] C
    by (simp add: env_defs up_def down_def no_dns_def loopback_def NewConnection_def)
qed

text \<open>
  Claim C8, as stated, fails: with the default \<^verbatim>\<open>size\<close> of 1500 and one argument left
  over, \<^verbatim>\<open>main\<close> prints the usage and returns at line 155, before line 158. That run
  allocates no buffer, and the global \<^verbatim>\<open>b\<close> stays nil.
\<close>

theorem leftover_argument_allocates_nothing:
  "flag_size (defaults\<lparr>NArg := 1\<rparr>) = 1500
   \<and> main (defaults\<lparr>NArg := 1\<rparr>) (host_os (up []) True)
       = ([Log Usage, PrintDefaults], Returned None, [])
   \<and> allocations (fst (main (defaults\<lparr>NArg := 1\<rparr>) (host_os (up []) True))) = []
   \<and> length (snd (snd (main (defaults\<lparr>NArg := 1\<rparr>) (host_os (up []) True)))) = 0"
  by (simp add: main_def defaults_def)

text \<open>
  Claim C8, amended. In a run with no argument left over and without \<^verbatim>\<open>-profile\<close>, with
  a positive \<^verbatim>\<open>size\<close> that \<^verbatim>\<open>make\<close> can allocate, \<^verbatim>\<open>main\<close> allocates exactly one buffer,
  and the global \<^verbatim>\<open>b\<close> has exactly \<^verbatim>\<open>size\<close> bytes (all zero) from then on. With an argument
  left over no buffer is allocated. With a \<^verbatim>\<open>size\<close> that is negative or beyond what
  \<^verbatim>\<open>make\<close> can allocate, which is never more than \<open>2 ^ 48\<close> bytes, the run ends at line 158
  with no buffer. The default of \<^verbatim>\<open>size\<close> is 1500.
\<close>

theorem buffer_provider:
  "(NArg f = 0 \<and> flag_profile f = [] \<and> 0 < flag_size f \<and> flag_size f \<le> make_limit w
      \<longrightarrow> int (length (snd (snd (main f w)))) = flag_size f
          \<and> snd (snd (main f w)) = replicate (nat (flag_size f)) 0
          \<and> allocations (fst (main f w)) = [nat (flag_size f)])
   \<and> (NArg f \<noteq> 0
      \<longrightarrow> allocations (fst (main f w)) = [] \<and> snd (snd (main f w)) = [])
   \<and> (NArg f = 0 \<and> (flag_size f < 0 \<or> make_limit w < flag_size f)
      \<longrightarrow> allocations (fst (main f w)) = [] \<and> snd (snd (main f w)) = []
          \<and> fst (snd (main f w)) = Panicked)
   \<and> make_limit w \<le> 2 ^ 48
   \<and> flag_size defaults = 1500"
proof -
  have a: "allocations (fst (and_then (ListenAndGo (main_Server f w) (network w 0))
                        ([Log FinishedExecution], Returned None))) = []"
    by (intro allocations_and_then allocations_ListenAndGo) simp
  have b: "allocations (fst (and_then (ConnectAndGo (main_Client f w) (network w))
                        (and_then (SigIntHandler (SIGINT w))
                           ([Log FinishedExecution], Returned None)))) = []"
    by (intro allocations_and_then allocations_ConnectAndGo allocations_SigIntHandler) simp
  have l: "make_limit w \<le> 2 ^ 48"
    by (simp add: make_limit_def maxAlloc_def)
  show ?thesis
    using a b l by (auto simp: main_def Let_def allocations_append defaults_def)
qed

theorem buffer_provider_witness:
  "int (length (snd (snd (main defaults (host_os (up []) True))))) = 1500
   \<and> snd (snd (main defaults (host_os (up []) True))) = replicate 1500 0
   \<and> allocations (fst (main defaults (host_os (up []) True))) = [1500]
   \<and> allocations (fst (main (defaults\<lparr>NArg := 2\<rparr>) (host_os (up []) True))) = []
   \<and> fst (snd (main (defaults\<lparr>flag_size := 9223372036854775807\<rparr>) (host_os (up []) True)))
       = Panicked
   \<and> allocations (fst (main (defaults\<lparr>flag_size := 9223372036854775807\<rparr>)
                          (host_os (up []) True))) = []"
  using buffer_provider [of defaults "host_os (up []) True"]
    buffer_provider [of "defaults\<lparr>NArg := 2\<rparr>" "host_os (up []) True"]
    buffer_provider [of "defaults\<lparr>flag_size := 9223372036854775807\<rparr>" "host_os (up []) True"]
  by (simp add: defaults_def make_limit_host_os host_os_def)

text \<open>
  Claim C9: the values of \<^verbatim>\<open>reqres\<close> and \<^verbatim>\<open>nflight\<close> change nothing. Two command lines
  that differ in these two flags only give \<^verbatim>\<open>main\<close> the same trace (log lines,
  connections, pumps started and on which connections), the same end and the same
  buffer; and \<^verbatim>\<open>ConnectAndGo\<close> does the same on two \<^verbatim>\<open>Client\<close> values that differ in the
  two fields only. The pumps take neither value.
\<close>

theorem reqres_nflight_no_effect:
  "main (f\<lparr>flag_reqres := r, flag_nflight := n\<rparr>) w = main f w
   \<and> ConnectAndGo (c\<lparr>nflight := n, reqres := r\<rparr>) nets = ConnectAndGo c nets
   \<and> ListenAndGo (main_Server (f\<lparr>flag_reqres := r, flag_nflight := n\<rparr>) w) nt
       = ListenAndGo (main_Server f w) nt"
proof -
  have c: "main_Client (f\<lparr>flag_reqres := r, flag_nflight := n\<rparr>) w
             = (main_Client f w)\<lparr>nflight := n, reqres := r\<rparr>"
    by (simp add: main_Client_def)
  have s: "main_Server (f\<lparr>flag_reqres := r, flag_nflight := n\<rparr>) w = main_Server f w"
    by (simp add: main_Server_def)
  show ?thesis
    by (simp add: main_def c s ConnectAndGo_unused_fields)
qed

end
